theory Spec2Isabelle
  imports Main "HOL-Library.Sublist"
begin

section \<open>Canonical allergens and certainty labels (allergen_canonical.py)\<close>

text \<open>
  A shallow embedding of \<^verbatim>\<open>apps/api/app/allergen_canonical.py\<close>: the frozen dataclass
  \<^verbatim>\<open>CanonicalAllergen\<close>, the static table, the lookup indexes derived from it at import
  time, the two certainty dictionaries and the four public functions.

  Python text is modelled by \<^typ>\<open>string\<close>, reading each \<^typ>\<open>char\<close> as the code point
  of the same number, so the model covers text over the code points 0 to 255. On that
  range \<^verbatim>\<open>str.lower\<close>, \<^verbatim>\<open>str.strip\<close>, the regular expression class \<^verbatim>\<open>\s\<close> and
  \<^verbatim>\<open>repr\<close> stay inside the range and are given below as CPython defines them.
\<close>

subsection \<open>Python text primitives\<close>

text \<open>
  \<^verbatim>\<open>str.isspace\<close> on one code point, which is also what \<^verbatim>\<open>str.strip()\<close> removes and
  what \<^verbatim>\<open>\s\<close> matches in a text pattern: TAB, LF, VT, FF, CR, the separators
  0x1C to 0x1F, the space, NEL (0x85) and the no-break space (0xA0).
\<close>

definition is_space :: "char \<Rightarrow> bool" where
  "is_space c =
     (let n = (of_char c :: nat)
      in (9 \<le> n \<and> n \<le> 13) \<or> (28 \<le> n \<and> n \<le> 32) \<or> n = 133 \<or> n = 160)"

text \<open>
  \<^verbatim>\<open>str.lower\<close> on one code point: the letters A to Z and the capital letters
  0xC0 to 0xDE (without the multiplication sign 0xD7) move up by 32.
\<close>

definition lower_char :: "char \<Rightarrow> char" where
  "lower_char c =
     (let n = (of_char c :: nat)
      in if (65 \<le> n \<and> n \<le> 90) \<or> (192 \<le> n \<and> n \<le> 222 \<and> n \<noteq> 215)
         then char_of (n + 32) else c)"

definition py_lower :: "string \<Rightarrow> string" where
  "py_lower s = map lower_char s"

definition py_lstrip :: "string \<Rightarrow> string" where
  "py_lstrip s = dropWhile is_space s"

definition py_rstrip :: "string \<Rightarrow> string" where
  "py_rstrip s = rev (dropWhile is_space (rev s))"

definition py_strip :: "string \<Rightarrow> string" where
  "py_strip s = py_rstrip (py_lstrip s)"

text \<open>\<^verbatim>\<open>text.startswith(key)\<close>.\<close>

definition startswith :: "string \<Rightarrow> string \<Rightarrow> bool" where
  "startswith text key = (take (length key) text = key)"

text \<open>
  \<^verbatim>\<open>re.sub(r"\s+", " ", text)\<close>: scanning from the left, every maximal run of
  whitespace is replaced by one space and every other character is kept.
\<close>

function re_sub_ws :: "string \<Rightarrow> string" where
  "re_sub_ws [] = []"
| "re_sub_ws (c # cs) =
     (if is_space c then CHR '' '' # re_sub_ws (dropWhile is_space cs)
      else c # re_sub_ws cs)"
  by pat_completeness auto
termination
  by (relation "measure length") (auto simp: length_dropWhile_le less_Suc_eq_le)

subsection \<open>The data model\<close>

record CanonicalAllergen =
  slug :: string
  label :: string
  legacy_codes :: "string list"
  aliases :: "string list"

text \<open>
  The values a caller can pass where the source says \<^verbatim>\<open>object\<close>: \<^verbatim>\<open>None\<close>, a
  \<^verbatim>\<open>str\<close>, an \<^verbatim>\<open>int\<close>, a \<^verbatim>\<open>bool\<close>, a \<^verbatim>\<open>float\<close> or a
  \<^verbatim>\<open>CanonicalAllergen\<close>. The functions use a \<^verbatim>\<open>float\<close> only through its truth
  value and through \<^verbatim>\<open>str\<close>, so a \<^verbatim>\<open>float\<close> is given by the text that \<^verbatim>\<open>repr\<close>
  produces for it (\<^verbatim>\<open>1.5\<close>, \<^verbatim>\<open>1e+16\<close>, \<^verbatim>\<open>-0.0\<close>, \<^verbatim>\<open>inf\<close>, \<^verbatim>\<open>nan\<close>); that text
  determines the number.
\<close>

datatype pyval =
    PyNone
  | PyStr string
  | PyInt int
  | PyBool bool
  | PyFloat string
  | PyEntry CanonicalAllergen

datatype py_error = AttributeError | ValueError

text \<open>
  Truth value of an object, as \<^verbatim>\<open>not value\<close> tests it. The only floats that test
  false are the two zeros; \<^verbatim>\<open>nan\<close> tests true.
\<close>

fun truthy :: "pyval \<Rightarrow> bool" where
  "truthy PyNone = False"
| "truthy (PyStr s) = (s \<noteq> [])"
| "truthy (PyInt n) = (n \<noteq> 0)"
| "truthy (PyBool b) = b"
| "truthy (PyFloat t) = (t \<noteq> ''0.0'' \<and> t \<noteq> ''-0.0'')"
| "truthy (PyEntry e) = True"

subsection \<open>Conversion to text: \<^verbatim>\<open>str(value)\<close>\<close>

definition digit_char :: "nat \<Rightarrow> char" where
  "digit_char d = char_of (48 + d)"

function dec_digits :: "nat \<Rightarrow> string" where
  "dec_digits n =
     (if n < 10 then [digit_char n] else dec_digits (n div 10) @ [digit_char (n mod 10)])"
  by pat_completeness auto
termination
  by (relation "measure id") auto

declare dec_digits.simps [simp del]

text \<open>
  CPython refuses to convert an \<^verbatim>\<open>int\<close> of more than \<^verbatim>\<open>sys.int_max_str_digits\<close>
  digits (4300 unless reconfigured) and raises \<^verbatim>\<open>ValueError\<close>.
\<close>

definition int_max_str_digits :: nat where
  "int_max_str_digits = 4300"

definition py_str_int :: "int \<Rightarrow> py_error + string" where
  "py_str_int n =
     (let ds = dec_digits (nat \<bar>n\<bar>)
      in if int_max_str_digits < length ds then Inl ValueError
         else Inr ((if n < 0 then ''-'' else []) @ ds))"

text \<open>
  \<^verbatim>\<open>repr\<close> of a \<^verbatim>\<open>str\<close>: double quotes are used only when the text holds a single
  quote and no double quote; the quote in use and the backslash are escaped, TAB, LF and
  CR are written \<^verbatim>\<open>\t\<close>, \<^verbatim>\<open>\n\<close>, \<^verbatim>\<open>\r\<close>, and every other code point that is not
  printable is written \<^verbatim>\<open>\xhh\<close>.
\<close>

definition is_printable :: "char \<Rightarrow> bool" where
  "is_printable c =
     (let n = (of_char c :: nat) in (32 \<le> n \<and> n < 127) \<or> (161 \<le> n \<and> n \<noteq> 173))"

definition hex_digit :: "nat \<Rightarrow> char" where
  "hex_digit d = (if d < 10 then char_of (48 + d) else char_of (87 + d))"

definition repr_char :: "char \<Rightarrow> char \<Rightarrow> string" where
  "repr_char quote c =
     (if c = quote \<or> c = CHR 0x5C then [CHR 0x5C, c]
      else if c = CHR 0x09 then [CHR 0x5C, CHR ''t'']
      else if c = CHR 0x0A then [CHR 0x5C, CHR ''n'']
      else if c = CHR 0x0D then [CHR 0x5C, CHR ''r'']
      else if is_printable c then [c]
      else [CHR 0x5C, CHR ''x'',
            hex_digit ((of_char c :: nat) div 16), hex_digit ((of_char c :: nat) mod 16)])"

definition py_repr_str :: "string \<Rightarrow> string" where
  "py_repr_str s =
     (let quote = (if CHR 0x27 \<in> set s \<and> CHR 0x22 \<notin> set s then CHR 0x22 else CHR 0x27)
      in quote # concat (map (repr_char quote) s) @ [quote])"

fun join_comma :: "string list \<Rightarrow> string" where
  "join_comma [] = []"
| "join_comma [x] = x"
| "join_comma (x # y # ys) = x @ '', '' @ join_comma (y # ys)"

text \<open>\<^verbatim>\<open>repr\<close> of a tuple of \<^verbatim>\<open>str\<close>; a tuple of one element ends in a comma.\<close>

definition py_repr_tuple :: "string list \<Rightarrow> string" where
  "py_repr_tuple xs =
     (case xs of
        [x] \<Rightarrow> ''('' @ py_repr_str x @ '',)''
      | _ \<Rightarrow> ''('' @ join_comma (map py_repr_str xs) @ '')'')"

text \<open>The \<^verbatim>\<open>__repr__\<close> that \<^verbatim>\<open>@dataclass\<close> generates, which \<^verbatim>\<open>str\<close> falls back to.\<close>

definition py_repr_entry :: "CanonicalAllergen \<Rightarrow> string" where
  "py_repr_entry e =
     ''CanonicalAllergen(slug='' @ py_repr_str (slug e)
       @ '', label='' @ py_repr_str (label e)
       @ '', legacy_codes='' @ py_repr_tuple (legacy_codes e)
       @ '', aliases='' @ py_repr_tuple (aliases e) @ '')''"

fun py_str :: "pyval \<Rightarrow> py_error + string" where
  "py_str PyNone = Inr ''None''"
| "py_str (PyStr s) = Inr s"
| "py_str (PyInt n) = py_str_int n"
| "py_str (PyBool b) = Inr (if b then ''True'' else ''False'')"
| "py_str (PyFloat t) = Inr t"
| "py_str (PyEntry e) = Inr (py_repr_entry e)"

subsection \<open>The canonical table and its indexes\<close>

definition CANONICAL_DATA :: "CanonicalAllergen list" where
  "CANONICAL_DATA = [
  \<lparr>slug = ''wheat'', label = ''Wheat'', legacy_codes = [],
    aliases = [''wheat'', ''gluten'', ''durum wheat'', ''semolina'', ''farina'', ''flour'',
       ''bread'', ''cereal'', ''cereals'']\<rparr>,
  \<lparr>slug = ''barley'', label = ''Barley'', legacy_codes = [],
    aliases = [''barley'', ''malt'', ''hordeum'']\<rparr>,
  \<lparr>slug = ''rye'', label = ''Rye'', legacy_codes = [],
    aliases = [''rye'', ''pumpernickel'', ''secale'']\<rparr>,
  \<lparr>slug = ''oats'', label = ''Oats'', legacy_codes = [],
    aliases = [''oats'', ''oatmeal'', ''rolled oats'']\<rparr>,
  \<lparr>slug = ''spelt'', label = ''Spelt'', legacy_codes = [],
    aliases = [''spelt'', ''dinkel'', ''spelt flour'']\<rparr>,
  \<lparr>slug = ''triticale'', label = ''Triticale'', legacy_codes = [],
    aliases = [''triticale'', ''triticale flour'']\<rparr>,
  \<lparr>slug = ''crustaceans'', label = ''Crustaceans'', legacy_codes = [],
    aliases = [''crustacean'', ''shrimp'', ''prawn'', ''crab'', ''lobster'', ''crayfish'',
       ''shellfish'']\<rparr>,
  \<lparr>slug = ''eggs'', label = ''Eggs'', legacy_codes = [],
    aliases = [''egg'', ''eggs'', ''albumen'', ''meringue'']\<rparr>,
  \<lparr>slug = ''fish'', label = ''Fish'', legacy_codes = [],
    aliases = [''fish'', ''salmon'', ''cod'', ''trout'', ''haddock'', ''tuna'',
       ''bass'']\<rparr>,
  \<lparr>slug = ''peanuts'', label = ''Peanuts'', legacy_codes = [],
    aliases = [''peanut'', ''peanuts'', ''groundnut'', ''groundnuts'', ''satay'',
       ''arachis'']\<rparr>,
  \<lparr>slug = ''soybeans'', label = ''Soybeans'', legacy_codes = [],
    aliases = [''soy'', ''soya'', ''soybean'', ''soybeans'', ''edamame'', ''tofu'',
       ''tempeh'', ''lecithin'']\<rparr>,
  \<lparr>slug = ''milk'', label = ''Milk'', legacy_codes = [],
    aliases = [''milk'', ''dairy'', ''lactose'', ''cheese'', ''butter'', ''cream'',
       ''yogurt'']\<rparr>,
  \<lparr>slug = ''tree_nuts'', label = ''Tree nuts'', legacy_codes = [],
    aliases = [''nut'', ''nuts'', ''almond'', ''almonds'', ''hazelnut'', ''hazelnuts'',
       ''walnut'', ''walnuts'', ''cashew'', ''cashews'', ''pecan'', ''pecans'',
       ''brazil nut'', ''brazil nuts'', ''pistachio'', ''pistachios'', ''macadamia'',
       ''macadamia nut'']\<rparr>,
  \<lparr>slug = ''celery'', label = ''Celery'', legacy_codes = [],
    aliases = [''celery'', ''celeriac'', ''apium'']\<rparr>,
  \<lparr>slug = ''mustard'', label = ''Mustard'', legacy_codes = [],
    aliases = [''mustard'', ''dijon'', ''wholegrain'', ''yellow mustard'',
       ''brown mustard'']\<rparr>,
  \<lparr>slug = ''sesame'', label = ''Sesame seeds'', legacy_codes = [],
    aliases = [''sesame'', ''sesame seed'', ''sesame seeds'', ''tahini'', ''gomasio'']\<rparr>,
  \<lparr>slug = ''sulphites'', label = ''Sulphur dioxide & sulphites'', legacy_codes = [],
    aliases = [''sulphite'', ''sulfite'', ''sulphites'', ''sulfites'', ''so2'',
       ''preservative'', ''e220'', ''e221'', ''e222'', ''e223'', ''e224'', ''e226'',
       ''e227'', ''e228'']\<rparr>,
  \<lparr>slug = ''lupin'', label = ''Lupin'', legacy_codes = [],
    aliases = [''lupin'', ''lupine'', ''lupini'', ''lupin flour'']\<rparr>,
  \<lparr>slug = ''molluscs'', label = ''Molluscs'', legacy_codes = [],
    aliases = [''mollusc'', ''molluscs'', ''mussel'', ''mussels'', ''oyster'', ''oysters'',
       ''clam'', ''octopus'', ''squid'', ''scallop'', ''snail'']\<rparr>,
  \<lparr>slug = ''meat'', label = ''Meat or animal derivative'', legacy_codes = [],
    aliases = [''meat'', ''beef'', ''pork'', ''chicken'', ''lamb'', ''steak'', ''bacon'',
       ''ham'', ''sausage'', ''gelatin'', ''gelatine'', ''lard'', ''animal fat'',
       ''animal derivative'']\<rparr>,
  \<lparr>slug = ''honey'', label = ''Honey'', legacy_codes = [],
    aliases = [''honey'', ''bee honey'', ''raw honey'']\<rparr>
]"

text \<open>
  \<^verbatim>\<open>_CANONICAL_BY_LABEL\<close>: the dictionary comprehension stores the items in table order,
  a later item replacing an earlier one under the same key.
\<close>

definition by_label_of :: "CanonicalAllergen list \<Rightarrow> (string \<rightharpoonup> CanonicalAllergen)" where
  "by_label_of tbl = fold (\<lambda>item m. m(py_lower (label item) \<mapsto> item)) tbl Map.empty"

definition CANONICAL_BY_LABEL :: "string \<rightharpoonup> CanonicalAllergen" where
  "CANONICAL_BY_LABEL = by_label_of CANONICAL_DATA"

text \<open>
  \<^verbatim>\<open>_ALIAS_LOOKUP\<close>: the outer loop runs over the entries, its body stores the entry
  under its lower-cased label and then, in the inner loop, under each lower-cased alias.
\<close>

definition alias_loop_body :: "CanonicalAllergen \<Rightarrow> (string \<rightharpoonup> CanonicalAllergen) \<Rightarrow> (string \<rightharpoonup> CanonicalAllergen)" where
  "alias_loop_body entry m =
     fold (\<lambda>alias m'. m'(py_lower alias \<mapsto> entry)) (aliases entry)
       (m(py_lower (label entry) \<mapsto> entry))"

definition alias_lookup_of :: "CanonicalAllergen list \<Rightarrow> (string \<rightharpoonup> CanonicalAllergen)" where
  "alias_lookup_of tbl = fold alias_loop_body tbl Map.empty"

definition ALIAS_LOOKUP :: "string \<rightharpoonup> CanonicalAllergen" where
  "ALIAS_LOOKUP = alias_lookup_of CANONICAL_DATA"

subsection \<open>The certainty dictionaries\<close>

text \<open>
  A dictionary literal with distinct keys iterates in the order written, so each
  dictionary is the list of its items; \<^verbatim>\<open>d.get(k)\<close> is \<^const>\<open>map_of\<close>.
\<close>

definition CERTAINTY_NORMALIZATION_RULES :: "(string \<times> string) list" where
  "CERTAINTY_NORMALIZATION_RULES = [
  (''certain'', ''certain''),
  (''definite'', ''certain''),
  (''explicit'', ''certain''),
  (''sure'', ''certain''),
  (''confirmed'', ''certain''),
  (''direct'', ''certain''),
  (''likely'', ''likely''),
  (''probable'', ''likely''),
  (''suggested'', ''likely''),
  (''estimated'', ''likely''),
  (''assumed'', ''likely''),
  (''inferred'', ''likely''),
  (''high'', ''likely''),
  (''very high'', ''likely''),
  (''high confidence'', ''likely''),
  (''most likely'', ''likely''),
  (''strong'', ''likely''),
  (''medium'', ''likely''),
  (''moderate'', ''likely''),
  (''medium confidence'', ''likely''),
  (''possible'', ''likely''),
  (''potential'', ''likely''),
  (''maybe'', ''likely''),
  (''uncertain'', ''likely''),
  (''low'', ''likely''),
  (''low confidence'', ''likely''),
  (''speculative'', ''likely''),
  (''predicted'', ''likely''),
  (''unknown'', ''likely''),
  (''n/a'', ''likely''),
  (''na'', ''likely''),
  (''unspecified'', ''likely'')
]"

definition UI_CERTAINTY_MAP :: "(string \<times> string) list" where
  "UI_CERTAINTY_MAP = [
  (''likely'', ''likely''),
  (''certain'', ''certain''),
  (''confirmed'', ''confirmed'')
]"

text \<open>
  \<^verbatim>\<open>d.get(value)\<close> on a dictionary keyed by text: a value that is not a \<^verbatim>\<open>str\<close>
  hashes without fault and equals no key.
\<close>

fun dict_get :: "(string \<times> 'v) list \<Rightarrow> pyval \<Rightarrow> 'v option" where
  "dict_get d (PyStr s) = map_of d s"
| "dict_get d v = None"

subsection \<open>The public functions\<close>

fun canonicalize_allergen :: "pyval \<Rightarrow> py_error + CanonicalAllergen option" where
  "canonicalize_allergen PyNone = Inr None"
| "canonicalize_allergen (PyEntry e) = Inr (Some e)"
| "canonicalize_allergen v =
     (case py_str v of
        Inl err \<Rightarrow> Inl err
      | Inr s \<Rightarrow>
          (let text = py_lower (py_strip s)
           in if text = [] then Inr None else Inr (ALIAS_LOOKUP text)))"

definition canonical_allergen_from_label :: "pyval \<Rightarrow> py_error + CanonicalAllergen option" where
  "canonical_allergen_from_label lbl =
     (if \<not> truthy lbl then Inr None
      else case lbl of
             PyStr s \<Rightarrow> Inr (CANONICAL_BY_LABEL (py_lower (py_strip s)))
           | _ \<Rightarrow> Inl AttributeError)"

text \<open>The loop over \<^verbatim>\<open>_CERTAINTY_NORMALIZATION_RULES.items()\<close>.\<close>

fun prefix_scan :: "string \<Rightarrow> (string \<times> string) list \<Rightarrow> string option" where
  "prefix_scan text [] = None"
| "prefix_scan text ((key, target) # rest) =
     (if startswith text key then Some target else prefix_scan text rest)"

fun normalize_certainty :: "pyval \<Rightarrow> py_error + string option" where
  "normalize_certainty PyNone = Inr None"
| "normalize_certainty v =
     (case py_str v of
        Inl err \<Rightarrow> Inl err
      | Inr s \<Rightarrow>
          (let text = py_lower (py_strip s)
           in if text = [] then Inr None
              else (let text' = re_sub_ws text
                    in case map_of CERTAINTY_NORMALIZATION_RULES text' of
                         Some normalized \<Rightarrow>
                           if normalized \<noteq> [] then Inr (Some normalized)
                           else Inr (prefix_scan text' CERTAINTY_NORMALIZATION_RULES)
                       | None \<Rightarrow> Inr (prefix_scan text' CERTAINTY_NORMALIZATION_RULES))))"

definition certainty_to_ui :: "pyval \<Rightarrow> py_error + string" where
  "certainty_to_ui v =
     (if \<not> truthy v then Inr ''likely''
      else case dict_get UI_CERTAINTY_MAP v of
             Some mapped \<Rightarrow> if mapped \<noteq> [] then Inr mapped else Inr ''likely''
           | None \<Rightarrow> Inr ''likely'')"

subsection \<open>Vocabulary for stating the properties\<close>

text \<open>The keys one entry contributes to \<^const>\<open>ALIAS_LOOKUP\<close>: its label, then its aliases.\<close>

definition declared_keys :: "CanonicalAllergen \<Rightarrow> string list" where
  "declared_keys e = map py_lower (label e # aliases e)"

text \<open>A text that neither starts nor ends with whitespace.\<close>

definition trimmed :: "string \<Rightarrow> bool" where
  "trimmed s = (s = [] \<or> (\<not> is_space (hd s) \<and> \<not> is_space (last s)))"

text \<open>A text holding two spaces in a row.\<close>

fun double_space :: "string \<Rightarrow> bool" where
  "double_space (a # b # cs) = ((a = CHR '' '' \<and> b = CHR '' '') \<or> double_space (b # cs))"
| "double_space cs = False"

text \<open>
  The text that \<^const>\<open>normalize_certainty\<close> looks up: trimmed, lower-cased, runs of
  whitespace collapsed.
\<close>

definition certainty_text :: "string \<Rightarrow> string" where
  "certainty_text s = re_sub_ws (py_lower (py_strip s))"

text \<open>Every whitespace character is a space and is followed by no whitespace.\<close>

fun collapsed :: "string \<Rightarrow> bool" where
  "collapsed [] = True"
| "collapsed [c] = (is_space c \<longrightarrow> c = CHR '' '')"
| "collapsed (a # b # cs) = ((is_space a \<longrightarrow> a = CHR '' '' \<and> \<not> is_space b) \<and> collapsed (b # cs))"

text \<open>The three entries that the examples of the specification name.\<close>

definition wheat_entry :: CanonicalAllergen where
  "wheat_entry = \<lparr>slug = ''wheat'', label = ''Wheat'', legacy_codes = [],
     aliases = [''wheat'', ''gluten'', ''durum wheat'', ''semolina'', ''farina'', ''flour'',
       ''bread'', ''cereal'', ''cereals'']\<rparr>"

definition milk_entry :: CanonicalAllergen where
  "milk_entry = \<lparr>slug = ''milk'', label = ''Milk'', legacy_codes = [],
     aliases = [''milk'', ''dairy'', ''lactose'', ''cheese'', ''butter'', ''cream'', ''yogurt'']\<rparr>"

definition oats_entry :: CanonicalAllergen where
  "oats_entry = \<lparr>slug = ''oats'', label = ''Oats'', legacy_codes = [],
     aliases = [''oats'', ''oatmeal'', ''rolled oats'']\<rparr>"

section \<open>Properties\<close>

subsection \<open>Lower-casing and trimming\<close>

lemma is_space_lower_char: "is_space (lower_char c) = is_space c"
proof -
  have "(of_char c :: nat) < 256" by simp
  then show ?thesis
    unfolding is_space_def lower_char_def Let_def
    by (auto simp: mod_if)
qed

lemma lower_char_idem: "lower_char (lower_char c) = lower_char c"
proof -
  have "(of_char c :: nat) < 256" by simp
  then show ?thesis
    unfolding lower_char_def Let_def
    by (auto simp: mod_if)
qed

lemma is_space_blank: "is_space CHR '' ''"
  by code_simp

lemma lower_char_blank: "lower_char CHR '' '' = CHR '' ''"
  by code_simp

lemma py_lower_idem: "py_lower (py_lower s) = py_lower s"
  by (simp add: py_lower_def lower_char_idem)

lemma py_lower_Nil_iff: "py_lower s = [] \<longleftrightarrow> s = []"
  by (simp add: py_lower_def)

lemma is_space_comp_lower: "is_space \<circ> lower_char = is_space"
  by (rule ext) (simp add: is_space_lower_char)

lemma py_strip_lower: "py_strip (py_lower s) = py_lower (py_strip s)"
  by (simp add: py_strip_def py_lstrip_def py_rstrip_def py_lower_def dropWhile_map rev_map
      is_space_comp_lower)

lemma py_strip_trimmed: "trimmed s \<Longrightarrow> py_strip s = s"
proof (cases "s = []")
  case True
  then show ?thesis by (simp add: py_strip_def py_lstrip_def py_rstrip_def)
next
  case False
  assume "trimmed s"
  with False have h: "\<not> is_space (hd s)" and l: "\<not> is_space (last s)"
    by (simp_all add: trimmed_def)
  from False h have "dropWhile is_space s = s"
    by (cases s) simp_all
  moreover from False l have "dropWhile is_space (rev s) = rev s"
    by (cases s rule: rev_cases) simp_all
  ultimately show ?thesis
    by (simp add: py_strip_def py_lstrip_def py_rstrip_def)
qed

lemma trimmed_py_strip: "trimmed (py_strip s)"
proof -
  define t where "t = dropWhile is_space s"
  define r where "r = rev (dropWhile is_space (rev t))"
  have r: "py_strip s = r"
    by (simp add: py_strip_def py_lstrip_def py_rstrip_def r_def t_def)
  have t_hd: "t \<noteq> [] \<Longrightarrow> \<not> is_space (hd t)"
    unfolding t_def by (rule hd_dropWhile)
  have "rev r = dropWhile is_space (rev t)" by (simp add: r_def)
  then have r_last: "r \<noteq> [] \<Longrightarrow> \<not> is_space (last r)"
    by (metis hd_dropWhile last_rev rev_is_Nil_conv rev_rev_ident)
  have "rev t = takeWhile is_space (rev t) @ rev r"
    by (simp add: r_def)
  then have "t = r @ rev (takeWhile is_space (rev t))"
    by (metis rev_append rev_rev_ident)
  then have "r \<noteq> [] \<Longrightarrow> hd r = hd t \<and> t \<noteq> []"
    by (metis hd_append2 append_is_Nil_conv)
  with t_hd r_last show ?thesis
    unfolding r trimmed_def by auto
qed

lemma py_strip_idem: "py_strip (py_strip s) = py_strip s"
  by (rule py_strip_trimmed) (rule trimmed_py_strip)

lemma py_lower_strip_fix: "py_lower (py_strip (py_lower (py_strip s))) = py_lower (py_strip s)"
  by (simp add: py_strip_lower py_strip_idem py_lower_idem)

subsection \<open>What the index construction computes\<close>

lemma fold_upd_const:
  "fold (\<lambda>a m'. m'(f a \<mapsto> e)) as m k = (if k \<in> f ` set as then Some e else m k)"
  by (induction as arbitrary: m) auto

lemma alias_loop_body_apply:
  "alias_loop_body e m k = (if k \<in> set (declared_keys e) then Some e else m k)"
  by (auto simp: alias_loop_body_def declared_keys_def fold_upd_const)

lemma alias_lookup_of_snoc:
  "alias_lookup_of (tbl @ [e]) = alias_loop_body e (alias_lookup_of tbl)"
  by (simp add: alias_lookup_of_def)

text \<open>A lookup finds the last entry of the table that declares the key.\<close>

lemma alias_lookup_of_find:
  "alias_lookup_of tbl k = find (\<lambda>e. k \<in> set (declared_keys e)) (rev tbl)"
proof (induction tbl rule: rev_induct)
  case Nil
  show ?case by (simp add: alias_lookup_of_def)
next
  case (snoc e tbl)
  then show ?case
    by (simp add: alias_lookup_of_snoc alias_loop_body_apply)
qed

lemma ALIAS_LOOKUP_find:
  "ALIAS_LOOKUP k = find (\<lambda>e. k \<in> set (declared_keys e)) (rev CANONICAL_DATA)"
  by (simp add: ALIAS_LOOKUP_def alias_lookup_of_find)

lemma canonicalize_allergen_PyStr:
  "canonicalize_allergen (PyStr s) =
     (if py_lower (py_strip s) = [] then Inr None
      else Inr (find (\<lambda>e. py_lower (py_strip s) \<in> set (declared_keys e)) (rev CANONICAL_DATA)))"
  by (simp add: ALIAS_LOOKUP_find)

lemma canonicalize_dairy: "canonicalize_allergen (PyStr ''dairy'') = Inr (Some milk_entry)"
  unfolding canonicalize_allergen_PyStr by code_simp

lemma dom_alias_lookup_of: "dom (alias_lookup_of tbl) = (\<Union>e\<in>set tbl. set (declared_keys e))"
proof (induction tbl rule: rev_induct)
  case Nil
  show ?case by (simp add: alias_lookup_of_def)
next
  case (snoc e tbl)
  have "dom (alias_loop_body e m) = set (declared_keys e) \<union> dom m" for m
    by (auto simp: dom_def alias_loop_body_apply)
  with snoc show ?case
    by (auto simp: alias_lookup_of_snoc)
qed

lemma find_last_declaring:
  assumes "distinct (concat (map (\<lambda>e. remdups (K e)) tbl))" and "e \<in> set tbl" and "k \<in> set (K e)"
  shows "find (\<lambda>e'. k \<in> set (K e')) (rev tbl) = Some e"
  using assms
proof (induction tbl rule: rev_induct)
  case Nil
  then show ?case by simp
next
  case (snoc x xs)
  show ?case
  proof (cases "k \<in> set (K x)")
    case True
    have "e = x"
    proof (rule ccontr)
      assume "e \<noteq> x"
      with snoc.prems(2) have "e \<in> set xs" by simp
      with snoc.prems(3) have "k \<in> (\<Union>y\<in>set xs. set (K y))" by blast
      with True snoc.prems(1) show False by auto
    qed
    with True show ?thesis by simp
  next
    case False
    with snoc.prems have "e \<in> set xs" by auto
    with snoc False show ?thesis by simp
  qed
qed

lemma find_unique_label:
  assumes "distinct (map f tbl)" and "e \<in> set tbl"
  shows "find (\<lambda>e'. f e' = f e) (rev tbl) = Some e"
  using assms
proof (induction tbl rule: rev_induct)
  case Nil
  then show ?case by simp
next
  case (snoc x xs)
  then show ?case by (cases "f x = f e") auto
qed

lemma by_label_of_find:
  "by_label_of tbl k = find (\<lambda>e. py_lower (label e) = k) (rev tbl)"
proof (induction tbl rule: rev_induct)
  case Nil
  show ?case by (simp add: by_label_of_def)
next
  case (snoc e tbl)
  then show ?case
    by (auto simp: by_label_of_def)
qed

lemma find_append_None: "find P xs = None \<Longrightarrow> find P (xs @ ys) = find P ys"
  by (induction xs) (auto split: if_splits)

subsection \<open>Facts about the shipped table\<close>

text \<open>
  The aliases are written in lower case, no two entries share a key, no label or alias is
  empty or starts or ends with whitespace, and no key holds two spaces in a row.
\<close>

lemma table_aliases_lower: "list_all (\<lambda>e. map py_lower (aliases e) = aliases e) CANONICAL_DATA"
  by code_simp

lemma table_keys_distinct:
  "distinct (concat (map (\<lambda>e. remdups (py_lower (label e) # aliases e)) CANONICAL_DATA))"
  by code_simp

lemma table_keys_trimmed:
  "list_all (\<lambda>e. list_all (\<lambda>A. A \<noteq> [] \<and> \<not> is_space (hd A) \<and> \<not> is_space (last A))
     (label e # aliases e)) CANONICAL_DATA"
  by code_simp

lemma table_labels_distinct: "distinct (map (\<lambda>e. py_lower (label e)) CANONICAL_DATA)"
  by code_simp

lemma table_no_double_space:
  "list_all (\<lambda>e. list_all (\<lambda>k. \<not> double_space k) (py_lower (label e) # aliases e)) CANONICAL_DATA"
  by code_simp

lemma table_declared_keys:
  "e \<in> set CANONICAL_DATA \<Longrightarrow> declared_keys e = py_lower (label e) # aliases e"
  using table_aliases_lower by (simp add: declared_keys_def list_all_iff)

lemma table_key_resolves:
  assumes "e \<in> set CANONICAL_DATA" and "k \<in> set (declared_keys e)"
  shows "ALIAS_LOOKUP k = Some e"
proof -
  have eq: "map (\<lambda>e. remdups (declared_keys e)) CANONICAL_DATA
      = map (\<lambda>e. remdups (py_lower (label e) # aliases e)) CANONICAL_DATA"
    by (rule map_cong) (simp_all only: table_declared_keys)
  have "distinct (concat (map (\<lambda>e. remdups (declared_keys e)) CANONICAL_DATA))"
    by (simp only: eq table_keys_distinct)
  from find_last_declaring [OF this assms] show ?thesis
    by (simp add: ALIAS_LOOKUP_find)
qed

lemma table_text_trimmed:
  assumes "e \<in> set CANONICAL_DATA" and "A \<in> set (label e # aliases e)"
  shows "A \<noteq> []" and "py_strip A = A"
proof -
  from table_keys_trimmed assms
  have *: "A \<noteq> [] \<and> \<not> is_space (hd A) \<and> \<not> is_space (last A)"
    unfolding list_all_iff by blast
  then show "A \<noteq> []" by simp
  from * show "py_strip A = A"
    by (intro py_strip_trimmed) (simp add: trimmed_def)
qed

lemma alias_lookup_of_last_wins:
  assumes "k \<in> set (declared_keys e)" and "\<forall>e'\<in>set ys. k \<notin> set (declared_keys e')"
  shows "alias_lookup_of (xs @ e # ys) k = Some e"
proof -
  from assms(2) have "find (\<lambda>e. k \<in> set (declared_keys e)) (rev ys) = None"
    by (simp add: find_None_iff)
  with assms(1) show ?thesis
    by (simp add: alias_lookup_of_find find_append_None)
qed

lemma canonicalize_declared:
  assumes "e \<in> set CANONICAL_DATA" and "A \<in> set (label e # aliases e)"
  shows "canonicalize_allergen (PyStr A) = Inr (Some e)"
proof -
  from table_text_trimmed [OF assms] have ne: "A \<noteq> []" and st: "py_strip A = A" .
  from assms(2) have "py_lower A \<in> set (declared_keys e)"
    by (auto simp: declared_keys_def)
  from table_key_resolves [OF assms(1) this] have "ALIAS_LOOKUP (py_lower A) = Some e" .
  with ne st show ?thesis
    by (simp add: py_lower_Nil_iff)
qed

lemma CANONICAL_BY_LABEL_find:
  "CANONICAL_BY_LABEL k = find (\<lambda>e. py_lower (label e) = k) (rev CANONICAL_DATA)"
  by (simp add: CANONICAL_BY_LABEL_def by_label_of_find)

lemma from_label_PyStr:
  "canonical_allergen_from_label (PyStr s) =
     (if s = [] then Inr None
      else Inr (find (\<lambda>e. py_lower (label e) = py_lower (py_strip s)) (rev CANONICAL_DATA)))"
  by (simp add: canonical_allergen_from_label_def CANONICAL_BY_LABEL_find)

lemma from_label_alias_only:
  assumes e: "e \<in> set CANONICAL_DATA"
    and a: "py_lower (py_strip s) \<in> set (map py_lower (aliases e))"
    and l: "\<forall>e'\<in>set CANONICAL_DATA. py_lower (py_strip s) \<noteq> py_lower (label e')"
  shows "canonical_allergen_from_label (PyStr s) = Inr None"
    and "canonicalize_allergen (PyStr s) = Inr (Some e)"
proof -
  from l have "find (\<lambda>e. py_lower (label e) = py_lower (py_strip s)) (rev CANONICAL_DATA) = None"
    by (auto simp: find_None_iff)
  then show "canonical_allergen_from_label (PyStr s) = Inr None"
    by (simp add: from_label_PyStr)
  from a have k: "py_lower (py_strip s) \<in> set (declared_keys e)"
    by (simp add: declared_keys_def)
  from table_key_resolves [OF e k] have r: "ALIAS_LOOKUP (py_lower (py_strip s)) = Some e" .
  from a obtain A where "A \<in> set (aliases e)" and eq: "py_lower (py_strip s) = py_lower A"
    by auto
  with e table_text_trimmed(1) [of e A] have "A \<noteq> []" by simp
  with eq have "py_lower (py_strip s) \<noteq> []" by (simp add: py_lower_Nil_iff)
  with r show "canonicalize_allergen (PyStr s) = Inr (Some e)"
    by simp
qed

lemma from_label_of_label:
  assumes e: "e \<in> set CANONICAL_DATA"
  shows "canonical_allergen_from_label (PyStr (label e)) = Inr (Some e)"
proof -
  from table_text_trimmed [OF e, of "label e"] have ne: "label e \<noteq> []" and st: "py_strip (label e) = label e"
    by simp_all
  from find_unique_label [OF table_labels_distinct e]
  have "find (\<lambda>e'. py_lower (label e') = py_lower (label e)) (rev CANONICAL_DATA) = Some e" .
  with ne st show ?thesis
    by (simp add: from_label_PyStr)
qed

lemma dairy_no_label: "\<forall>e'\<in>set CANONICAL_DATA. py_lower (py_strip ''dairy'') \<noteq> py_lower (label e')"
  by code_simp

lemma double_space_append: "double_space (u @ CHR '' '' # CHR '' '' # v)"
  by (induction u rule: double_space.induct) auto

lemma table_key_no_double_space:
  assumes "e \<in> set CANONICAL_DATA" and "k \<in> set (declared_keys e)"
  shows "\<not> double_space k"
  using table_no_double_space assms
  by (auto simp: list_all_iff table_declared_keys)

lemma double_space_not_key:
  assumes "double_space k"
  shows "ALIAS_LOOKUP k = None"
proof -
  from assms have "k \<notin> (\<Union>e\<in>set CANONICAL_DATA. set (declared_keys e))"
    using table_key_no_double_space by blast
  then have "k \<notin> dom ALIAS_LOOKUP"
    by (simp add: ALIAS_LOOKUP_def dom_alias_lookup_of)
  then show ?thesis by (simp add: domIff)
qed

lemma doubled_space_absent:
  assumes e: "e \<in> set CANONICAL_DATA" and A: "A \<in> set (aliases e)" and sp: "A = u @ CHR '' '' # v"
  shows "canonicalize_allergen (PyStr (u @ CHR '' '' # CHR '' '' # v)) = Inr None"
proof -
  from table_keys_trimmed e A
  have t: "\<not> is_space (hd A)" "\<not> is_space (last A)"
    by (auto simp: list_all_iff)
  from t(1) sp have u: "u \<noteq> []"
    by (cases u) (auto simp: is_space_blank)
  from t(2) sp have v: "v \<noteq> []"
    by (cases v rule: rev_cases) (auto simp: is_space_blank)
  let ?B = "u @ CHR '' '' # CHR '' '' # v"
  from u sp have "hd ?B = hd A" by simp
  moreover from v sp have "last ?B = last A" by simp
  ultimately have "trimmed ?B"
    using t by (simp add: trimmed_def)
  then have st: "py_strip ?B = ?B" by (rule py_strip_trimmed)
  have "py_lower ?B = py_lower u @ CHR '' '' # CHR '' '' # py_lower v"
    by (simp add: py_lower_def lower_char_blank)
  then have "double_space (py_lower ?B)"
    by (simp only: double_space_append)
  then have "ALIAS_LOOKUP (py_lower ?B) = None" by (rule double_space_not_key)
  with st show ?thesis
    by (simp add: Let_def)
qed

subsection \<open>The certainty rules\<close>

lemma startswith_prefix: "startswith text key = prefix key text"
  unfolding startswith_def
  by (metis append_eq_conv_conj prefix_def take_is_prefix)

lemma prefix_scan_find:
  "prefix_scan text rules = map_option snd (find (\<lambda>(k, t). prefix k text) rules)"
  by (induction rules) (auto simp: startswith_prefix)

lemma rules_targets: "snd ` set CERTAINTY_NORMALIZATION_RULES = {''certain'', ''likely''}"
  by (auto simp: CERTAINTY_NORMALIZATION_RULES_def)

lemma rules_keys_nonempty: "(k, t) \<in> set CERTAINTY_NORMALIZATION_RULES \<Longrightarrow> k \<noteq> []"
  by (auto simp: CERTAINTY_NORMALIZATION_RULES_def)

lemma rules_get_target:
  assumes "map_of CERTAINTY_NORMALIZATION_RULES x = Some n"
  shows "n = ''certain'' \<or> n = ''likely''"
proof -
  from assms have "(x, n) \<in> set CERTAINTY_NORMALIZATION_RULES" by (rule map_of_SomeD)
  then have "n \<in> snd ` set CERTAINTY_NORMALIZATION_RULES" by force
  then show ?thesis by (simp only: rules_targets) simp
qed

lemma prefix_scan_target:
  "prefix_scan text rules = Some r \<Longrightarrow> r \<in> snd ` set rules"
  by (induction rules) (auto split: if_splits)

lemma re_sub_ws_Nil_iff: "re_sub_ws s = [] \<longleftrightarrow> s = []"
  by (cases s) simp_all

lemma normalize_certainty_PyStr:
  "normalize_certainty (PyStr s) =
     (if py_lower (py_strip s) = [] then Inr None
      else case map_of CERTAINTY_NORMALIZATION_RULES (certainty_text s) of
             Some n \<Rightarrow> Inr (Some n)
           | None \<Rightarrow> Inr (map_option snd
               (find (\<lambda>(k, t). prefix k (certainty_text s)) CERTAINTY_NORMALIZATION_RULES)))"
  using rules_get_target
  by (auto simp: Let_def certainty_text_def prefix_scan_find split: option.splits)

lemma normalize_certainty_via_str:
  "v \<noteq> PyNone \<Longrightarrow> py_str v = Inr s \<Longrightarrow> normalize_certainty v = normalize_certainty (PyStr s)"
  by (cases v) simp_all

lemma find_high:
  assumes "prefix ''high'' t"
  shows "find (\<lambda>(k, v). prefix k t) CERTAINTY_NORMALIZATION_RULES = Some (''high'', ''likely'')"
proof -
  from assms obtain r where "t = ''high'' @ r" by (auto simp: prefix_def)
  then show ?thesis
    by (simp add: CERTAINTY_NORMALIZATION_RULES_def)
qed

lemma get_high:
  assumes "prefix ''high'' x" and "map_of CERTAINTY_NORMALIZATION_RULES x = Some n"
  shows "n = ''likely''"
proof -
  from assms(1) obtain r where "x = ''high'' @ r" by (auto simp: prefix_def)
  with assms(2) show ?thesis
    by (auto simp: CERTAINTY_NORMALIZATION_RULES_def split: if_splits)
qed

lemma no_prefix_no_exact:
  assumes "\<forall>(k, t)\<in>set CERTAINTY_NORMALIZATION_RULES. \<not> prefix k x"
  shows "map_of CERTAINTY_NORMALIZATION_RULES x = None"
    and "find (\<lambda>(k, t). prefix k x) CERTAINTY_NORMALIZATION_RULES = None"
proof -
  show "map_of CERTAINTY_NORMALIZATION_RULES x = None"
  proof (cases "map_of CERTAINTY_NORMALIZATION_RULES x")
    case (Some n)
    then have "(x, n) \<in> set CERTAINTY_NORMALIZATION_RULES" by (rule map_of_SomeD)
    with assms have "\<not> prefix x x" by blast
    then show ?thesis by simp
  qed simp
  from assms show "find (\<lambda>(k, t). prefix k x) CERTAINTY_NORMALIZATION_RULES = None"
    by (auto simp: find_None_iff)
qed

lemma collapsed_Cons:
  "collapsed (a # xs) \<longleftrightarrow>
     (is_space a \<longrightarrow> a = CHR '' '' \<and> (xs \<noteq> [] \<longrightarrow> \<not> is_space (hd xs))) \<and> collapsed xs"
  by (cases xs) auto

lemma hd_re_sub_ws: "s \<noteq> [] \<Longrightarrow> \<not> is_space (hd s) \<Longrightarrow> hd (re_sub_ws s) = hd s"
  by (cases s) simp_all

lemma collapsed_re_sub_ws: "collapsed (re_sub_ws s)"
proof (induction s rule: re_sub_ws.induct)
  case 1
  show ?case by simp
next
  case (2 c cs)
  show ?case
  proof (cases "is_space c")
    case True
    let ?d = "dropWhile is_space cs"
    have "re_sub_ws ?d \<noteq> [] \<Longrightarrow> \<not> is_space (hd (re_sub_ws ?d))"
    proof -
      assume "re_sub_ws ?d \<noteq> []"
      then have ne: "?d \<noteq> []" by (simp add: re_sub_ws_Nil_iff)
      then have "\<not> is_space (hd ?d)" by (rule hd_dropWhile)
      with ne show ?thesis by (simp add: hd_re_sub_ws)
    qed
    with True 2 show ?thesis
      by (simp add: collapsed_Cons)
  next
    case False
    with 2 show ?thesis
      by (simp add: collapsed_Cons)
  qed
qed

lemma filter_dropWhile_not: "filter (\<lambda>c. \<not> P c) (dropWhile P xs) = filter (\<lambda>c. \<not> P c) xs"
  by (induction xs) auto

lemma re_sub_ws_keeps_text:
  "filter (\<lambda>c. \<not> is_space c) (re_sub_ws s) = filter (\<lambda>c. \<not> is_space c) s"
proof (induction s rule: re_sub_ws.induct)
  case 1
  show ?case by simp
next
  case (2 c cs)
  then show ?case
    by (cases "is_space c") (simp_all add: is_space_blank filter_dropWhile_not)
qed

lemma normalize_certainty_str_fails:
  "v \<noteq> PyNone \<Longrightarrow> py_str v = Inl err \<Longrightarrow> normalize_certainty v = Inl err"
  by (cases v) simp_all

lemma rules_get_empty: "map_of CERTAINTY_NORMALIZATION_RULES [] = None"
  by (simp add: CERTAINTY_NORMALIZATION_RULES_def)

lemma normalize_certainty_blank:
  assumes "v \<noteq> PyNone" and "py_str v = Inr s" and "py_strip s = []"
  shows "normalize_certainty v = Inr None"
proof -
  from assms(3) have "py_lower (py_strip s) = []" by (simp add: py_lower_def)
  then have "normalize_certainty (PyStr s) = Inr None"
    unfolding normalize_certainty_PyStr by simp
  with normalize_certainty_via_str [OF assms(1,2)] show ?thesis by simp
qed

lemma normalize_certainty_exact:
  assumes "v \<noteq> PyNone" and "py_str v = Inr s"
    and "map_of CERTAINTY_NORMALIZATION_RULES (certainty_text s) = Some t"
  shows "normalize_certainty v = Inr (Some t)"
proof -
  have "py_lower (py_strip s) \<noteq> []"
  proof
    assume "py_lower (py_strip s) = []"
    then have "certainty_text s = []" by (simp add: certainty_text_def)
    with assms(3) rules_get_empty show False by simp
  qed
  with assms(3) have "normalize_certainty (PyStr s) = Inr (Some t)"
    unfolding normalize_certainty_PyStr by simp
  with normalize_certainty_via_str [OF assms(1,2)] show ?thesis by simp
qed

lemma normalize_certainty_range:
  assumes "normalize_certainty v = Inr (Some r)"
  shows "r = ''certain'' \<or> r = ''likely''"
proof -
  from assms have nn: "v \<noteq> PyNone" by auto
  show ?thesis
  proof (cases "py_str v")
    case (Inl err)
    from normalize_certainty_str_fails [OF nn Inl] assms show ?thesis by simp
  next
    case (Inr s)
    from normalize_certainty_via_str [OF nn Inr] assms
    have *: "normalize_certainty (PyStr s) = Inr (Some r)"
      by simp
    show ?thesis
    proof (cases "map_of CERTAINTY_NORMALIZATION_RULES (certainty_text s)")
      case (Some n)
      with * have "n = r"
        unfolding normalize_certainty_PyStr by (simp split: if_splits)
      with Some rules_get_target show ?thesis by blast
    next
      case None
      with * have "find (\<lambda>(k, t). prefix k (certainty_text s)) CERTAINTY_NORMALIZATION_RULES \<noteq> None
          \<and> r = snd (the (find (\<lambda>(k, t). prefix k (certainty_text s)) CERTAINTY_NORMALIZATION_RULES))"
        unfolding normalize_certainty_PyStr by (auto split: if_splits)
      then obtain x where f: "find (\<lambda>(k, t). prefix k (certainty_text s)) CERTAINTY_NORMALIZATION_RULES = Some x"
        and r: "r = snd x" by auto
      from f have "x \<in> set CERTAINTY_NORMALIZATION_RULES"
        unfolding find_Some_iff by (metis nth_mem)
      with r have "r \<in> snd ` set CERTAINTY_NORMALIZATION_RULES" by simp
      then show ?thesis by (simp only: rules_targets) simp
    qed
  qed
qed

subsection \<open>Which calls return\<close>

lemma length_dec_digits:
  "0 < k \<Longrightarrow> n < 10 ^ k \<Longrightarrow> length (dec_digits n) \<le> k"
proof (induction k arbitrary: n)
  case 0
  then show ?case by simp
next
  case (Suc k)
  show ?case
  proof (cases "n < 10")
    case True
    then show ?thesis by (subst dec_digits.simps) simp
  next
    case False
    with Suc.prems have "0 < k" by (cases k) simp_all
    moreover from Suc.prems have "n div 10 < 10 ^ k"
      by (simp add: less_mult_imp_div_less mult.commute)
    ultimately have "length (dec_digits (n div 10)) \<le> k" by (rule Suc.IH)
    with False show ?thesis by (subst dec_digits.simps) simp
  qed
qed

lemma py_str_int_ok:
  assumes "\<bar>n\<bar> < 10 ^ int_max_str_digits"
  shows "\<exists>s. py_str_int n = Inr s"
proof -
  from assms have "nat \<bar>n\<bar> < 10 ^ int_max_str_digits"
    by (metis abs_ge_zero nat_less_iff of_nat_numeral of_nat_power)
  moreover have "0 < int_max_str_digits" by (simp add: int_max_str_digits_def)
  ultimately have "length (dec_digits (nat \<bar>n\<bar>)) \<le> int_max_str_digits"
    by (intro length_dec_digits)
  then show ?thesis
    by (simp add: py_str_int_def Let_def)
qed

lemma py_str_ok:
  assumes "\<forall>n. v = PyInt n \<longrightarrow> \<bar>n\<bar> < 10 ^ int_max_str_digits"
  shows "\<exists>s. py_str v = Inr s"
  using assms by (cases v) (simp_all add: py_str_int_ok)

lemma canonicalize_allergen_returns:
  assumes "\<exists>s. py_str v = Inr s"
  shows "\<exists>r. canonicalize_allergen v = Inr r"
  using assms by (cases v) (auto simp: Let_def)

lemma normalize_certainty_returns:
  assumes "\<exists>s. py_str v = Inr s"
  shows "\<exists>r. normalize_certainty v = Inr r"
proof (cases "v = PyNone")
  case True
  then show ?thesis by simp
next
  case False
  from assms obtain s where s: "py_str v = Inr s" ..
  have "\<exists>r. normalize_certainty (PyStr s) = Inr r"
    unfolding normalize_certainty_PyStr by (simp split: option.splits)
  with normalize_certainty_via_str [OF False s] show ?thesis by simp
qed

lemma certainty_to_ui_returns: "\<exists>r. certainty_to_ui v = Inr r"
  by (simp add: certainty_to_ui_def split: option.splits)

lemma from_label_returns:
  assumes "(\<exists>s. v = PyStr s) \<or> \<not> truthy v"
  shows "\<exists>r. canonical_allergen_from_label v = Inr r"
  using assms by (cases v) (auto simp: canonical_allergen_from_label_def)

lemma from_label_matching_label:
  assumes e: "e \<in> set CANONICAL_DATA" and k: "py_lower (py_strip s) = py_lower (label e)"
  shows "canonical_allergen_from_label (PyStr s) = Inr (Some e)"
proof -
  from table_text_trimmed(1) [OF e, of "label e"] have "label e \<noteq> []" by simp
  then have "py_lower (label e) \<noteq> []" by (simp add: py_lower_Nil_iff)
  with k have "s \<noteq> []"
    by (auto simp: py_strip_def py_lstrip_def py_rstrip_def py_lower_def)
  moreover from find_unique_label [OF table_labels_distinct e]
  have "find (\<lambda>e'. py_lower (label e') = py_lower (py_strip s)) (rev CANONICAL_DATA) = Some e"
    by (simp only: k)
  ultimately show ?thesis
    by (simp add: from_label_PyStr)
qed

lemma from_label_no_label:
  assumes "\<forall>e\<in>set CANONICAL_DATA. py_lower (py_strip s) \<noteq> py_lower (label e)"
  shows "canonical_allergen_from_label (PyStr s) = Inr None"
proof -
  from assms have "find (\<lambda>e. py_lower (label e) = py_lower (py_strip s)) (rev CANONICAL_DATA) = None"
    by (auto simp: find_None_iff)
  then show ?thesis by (simp add: from_label_PyStr)
qed

lemma dec_digits_nonempty: "dec_digits n \<noteq> []"
  by (subst dec_digits.simps) simp

lemma length_dec_digits_lower:
  "10 ^ k \<le> n \<Longrightarrow> k < length (dec_digits n)"
proof (induction k arbitrary: n)
  case 0
  from dec_digits_nonempty [of n] show ?case by (cases "dec_digits n") simp_all
next
  case (Suc k)
  have "(10::nat) \<le> 10 ^ Suc k" by simp
  with Suc.prems have ge: "10 \<le> n" by linarith
  from Suc.prems have "10 ^ k \<le> n div 10"
    by (simp add: less_eq_div_iff_mult_less_eq mult.commute)
  then have "k < length (dec_digits (n div 10))" by (rule Suc.IH)
  with ge show ?case by (subst dec_digits.simps) simp
qed

lemma py_str_int_too_long:
  assumes "10 ^ int_max_str_digits \<le> \<bar>n\<bar>"
  shows "py_str_int n = Inl ValueError"
proof -
  from assms have "10 ^ int_max_str_digits \<le> nat \<bar>n\<bar>"
    by (metis abs_ge_zero nat_le_iff of_nat_numeral of_nat_power zero_le_numeral zero_le_power nat_mono nat_power_eq nat_numeral)
  then have "int_max_str_digits < length (dec_digits (nat \<bar>n\<bar>))"
    by (rule length_dec_digits_lower)
  then show ?thesis
    by (simp add: py_str_int_def Let_def)
qed

lemma canonicalize_allergen_str_fails:
  "py_str v = Inl err \<Longrightarrow> canonicalize_allergen v = Inl err"
  by (cases v) simp_all

lemma str_int_too_long_raises:
  assumes "10 ^ int_max_str_digits \<le> \<bar>n\<bar>"
  shows "canonicalize_allergen (PyInt n) = Inl ValueError"
    and "normalize_certainty (PyInt n) = Inl ValueError"
proof -
  from py_str_int_too_long [OF assms] have s: "py_str (PyInt n) = Inl ValueError" by simp
  from canonicalize_allergen_str_fails [OF s]
  show "canonicalize_allergen (PyInt n) = Inl ValueError" .
  have "PyInt n \<noteq> PyNone" by simp
  from normalize_certainty_str_fails [OF this s]
  show "normalize_certainty (PyInt n) = Inl ValueError" .
qed

lemma from_label_raises_int: "n \<noteq> 0 \<Longrightarrow> canonical_allergen_from_label (PyInt n) = Inl AttributeError"
  by (simp add: canonical_allergen_from_label_def)

lemma from_label_raises_bool: "canonical_allergen_from_label (PyBool True) = Inl AttributeError"
  by (simp add: canonical_allergen_from_label_def)

lemma from_label_raises_float:
  "truthy (PyFloat t) \<Longrightarrow> canonical_allergen_from_label (PyFloat t) = Inl AttributeError"
  by (simp add: canonical_allergen_from_label_def)

lemma from_label_raises_entry: "canonical_allergen_from_label (PyEntry e) = Inl AttributeError"
  by (simp add: canonical_allergen_from_label_def)

lemma pow10_limit_abs: "10 ^ int_max_str_digits \<le> \<bar>(10::int) ^ 4300\<bar>"
  by (simp only: int_max_str_digits_def abs_ge_self)

subsection \<open>The claims\<close>

text \<open>
  C9. \<^const>\<open>canonicalize_allergen\<close> is the identity on canonical entries: an input that is
  already a \<^typ>\<open>CanonicalAllergen\<close> is returned unchanged, so applying the function to
  its own non-absent result returns the same entry.
\<close>

theorem canonicalize_allergen_identity_on_entries:
  "(\<forall>e. canonicalize_allergen (PyEntry e) = Inr (Some e)) \<and>
   (\<forall>v e. canonicalize_allergen v = Inr (Some e) \<longrightarrow>
      canonicalize_allergen (PyEntry e) = Inr (Some e))"
  by simp

theorem canonicalize_allergen_identity_on_entries_witness:
  "canonicalize_allergen (PyStr ''dairy'') = Inr (Some milk_entry) \<and>
   canonicalize_allergen (PyEntry milk_entry) = Inr (Some milk_entry)"
proof -
  have h: "canonicalize_allergen (PyStr ''dairy'') = Inr (Some milk_entry)"
    by (rule canonicalize_dairy)
  from canonicalize_allergen_identity_on_entries
  have "canonicalize_allergen (PyStr ''dairy'') = Inr (Some milk_entry) \<longrightarrow>
        canonicalize_allergen (PyEntry milk_entry) = Inr (Some milk_entry)"
    by blast
  with h show ?thesis by simp
qed

text \<open>
  C6. \<^const>\<open>certainty_to_ui\<close> never fails and returns one of the three UI values for every
  input: an absent input gives "likely"; "likely", "certain" and "confirmed" pass through
  unchanged; every other value, such as "bogus", gives "likely".
\<close>

theorem certainty_to_ui_total_three_values:
  "(\<forall>v. certainty_to_ui v \<in> {Inr ''likely'', Inr ''certain'', Inr ''confirmed''})
   \<and> certainty_to_ui PyNone = Inr ''likely''
   \<and> certainty_to_ui (PyStr ''likely'') = Inr ''likely''
   \<and> certainty_to_ui (PyStr ''certain'') = Inr ''certain''
   \<and> certainty_to_ui (PyStr ''confirmed'') = Inr ''confirmed''
   \<and> (\<forall>v. v \<notin> {PyStr ''likely'', PyStr ''certain'', PyStr ''confirmed''} \<longrightarrow>
         certainty_to_ui v = Inr ''likely'')
   \<and> certainty_to_ui (PyStr ''bogus'') = Inr ''likely''"
proof -
  have ui: "certainty_to_ui v =
      (if v = PyStr ''certain'' then Inr ''certain''
       else if v = PyStr ''confirmed'' then Inr ''confirmed'' else Inr ''likely'')" for v
    by (cases v) (auto simp: certainty_to_ui_def UI_CERTAINTY_MAP_def)
  show ?thesis
    by (simp add: ui)
qed

theorem certainty_to_ui_total_three_values_witness:
  "PyInt 7 \<notin> {PyStr ''likely'', PyStr ''certain'', PyStr ''confirmed''} \<and>
   certainty_to_ui (PyInt 7) = Inr ''likely''"
proof -
  have h: "PyInt 7 \<notin> {PyStr ''likely'', PyStr ''certain'', PyStr ''confirmed''}"
    by simp
  from certainty_to_ui_total_three_values
  have "PyInt 7 \<notin> {PyStr ''likely'', PyStr ''certain'', PyStr ''confirmed''} \<longrightarrow>
        certainty_to_ui (PyInt 7) = Inr ''likely''"
    by blast
  with h show ?thesis by simp
qed

text \<open>
  C7. \<^const>\<open>canonicalize_allergen\<close> is insensitive to letter case and to leading and
  trailing whitespace: the result on a text equals the result on its trimmed, lower-cased
  form (so "  WHEAT " and "wheat" resolve alike, to the Wheat entry); an absent input and
  the empty text both give absent.
\<close>

theorem canonicalize_allergen_case_trim_insensitive:
  "(\<forall>s. canonicalize_allergen (PyStr s) = canonicalize_allergen (PyStr (py_lower (py_strip s))))
   \<and> canonicalize_allergen (PyStr ''  WHEAT '') = canonicalize_allergen (PyStr ''wheat'')
   \<and> canonicalize_allergen (PyStr ''  WHEAT '') = Inr (Some wheat_entry)
   \<and> canonicalize_allergen PyNone = Inr None
   \<and> canonicalize_allergen (PyStr []) = Inr None"
proof -
  have gen: "canonicalize_allergen (PyStr s) = canonicalize_allergen (PyStr (py_lower (py_strip s)))" for s
    by (simp only: canonicalize_allergen_PyStr py_lower_strip_fix)
  have w: "py_lower (py_strip ''  WHEAT '') = ''wheat''"
    by code_simp
  have e: "canonicalize_allergen (PyStr ''wheat'') = Inr (Some wheat_entry)"
    unfolding canonicalize_allergen_PyStr by code_simp
  have n: "canonicalize_allergen (PyStr []) = Inr None"
    unfolding canonicalize_allergen_PyStr by code_simp
  from gen [of "''  WHEAT ''"] w
  have "canonicalize_allergen (PyStr ''  WHEAT '') = canonicalize_allergen (PyStr ''wheat'')"
    by simp
  with gen e n show ?thesis by simp
qed

text \<open>
  C8. Allergen lookup is by exact key only: a text whose trimmed, lower-cased form is not
  a key of the combined index gives absent. The keys are the lower-cased labels and
  aliases of the table and nothing else, so "Peanut butter traces" gives absent although
  it starts with the alias "peanut".
\<close>

theorem canonicalize_allergen_exact_key_only:
  "(\<forall>s. py_lower (py_strip s) \<notin> dom ALIAS_LOOKUP \<longrightarrow> canonicalize_allergen (PyStr s) = Inr None)
   \<and> dom ALIAS_LOOKUP = (\<Union>e\<in>set CANONICAL_DATA. set (declared_keys e))
   \<and> ''peanut'' \<in> dom ALIAS_LOOKUP
   \<and> prefix ''peanut'' (py_lower (py_strip ''Peanut butter traces''))
   \<and> canonicalize_allergen (PyStr ''Peanut butter traces'') = Inr None"
proof -
  have a: "py_lower (py_strip s) \<notin> dom ALIAS_LOOKUP \<Longrightarrow> canonicalize_allergen (PyStr s) = Inr None" for s
    by (auto simp: domIff Let_def)
  have b: "dom ALIAS_LOOKUP = (\<Union>e\<in>set CANONICAL_DATA. set (declared_keys e))"
    by (simp add: ALIAS_LOOKUP_def dom_alias_lookup_of)
  have "ALIAS_LOOKUP ''peanut'' \<noteq> None"
    unfolding ALIAS_LOOKUP_find by code_simp
  then have c: "''peanut'' \<in> dom ALIAS_LOOKUP"
    by (simp add: domIff)
  have d: "prefix ''peanut'' (py_lower (py_strip ''Peanut butter traces''))"
    by code_simp
  have e: "canonicalize_allergen (PyStr ''Peanut butter traces'') = Inr None"
    unfolding canonicalize_allergen_PyStr by code_simp
  from a b c d e show ?thesis by blast
qed

theorem canonicalize_allergen_exact_key_only_witness:
  "py_lower (py_strip ''Peanut butter traces'') \<notin> dom ALIAS_LOOKUP \<and>
   canonicalize_allergen (PyStr ''Peanut butter traces'') = Inr None"
proof -
  have "ALIAS_LOOKUP (py_lower (py_strip ''Peanut butter traces'')) = None"
    unfolding ALIAS_LOOKUP_find by code_simp
  then have h: "py_lower (py_strip ''Peanut butter traces'') \<notin> dom ALIAS_LOOKUP"
    by (simp add: domIff)
  from canonicalize_allergen_exact_key_only
  have "py_lower (py_strip ''Peanut butter traces'') \<notin> dom ALIAS_LOOKUP \<longrightarrow>
        canonicalize_allergen (PyStr ''Peanut butter traces'') = Inr None"
    by blast
  with h show ?thesis by simp
qed

text \<open>
  C1. For every label and every alias A declared in the canonical table,
  \<^const>\<open>canonicalize_allergen\<close> on A returns the entry that declared A. The index
  construction is last-write-wins: in any table, a key declared by an entry and by no
  entry after it resolves to that entry, whatever the entries before it declare.
\<close>

theorem alias_lookup_declared_last_wins:
  "(\<forall>e\<in>set CANONICAL_DATA. \<forall>A\<in>set (label e # aliases e).
      canonicalize_allergen (PyStr A) = Inr (Some e))
   \<and> (\<forall>xs e ys k. k \<in> set (declared_keys e) \<and> (\<forall>e'\<in>set ys. k \<notin> set (declared_keys e')) \<longrightarrow>
         alias_lookup_of (xs @ e # ys) k = Some e)"
  using canonicalize_declared alias_lookup_of_last_wins by blast

theorem alias_lookup_declared_last_wins_witness:
  "milk_entry \<in> set CANONICAL_DATA \<and> ''dairy'' \<in> set (label milk_entry # aliases milk_entry)
   \<and> canonicalize_allergen (PyStr ''dairy'') = Inr (Some milk_entry)
   \<and> ''nuts'' \<in> set (declared_keys (oats_entry\<lparr>aliases := [''nuts'']\<rparr>))
   \<and> ''nuts'' \<notin> set (declared_keys wheat_entry)
   \<and> alias_lookup_of ([milk_entry\<lparr>aliases := [''nuts'']\<rparr>] @ oats_entry\<lparr>aliases := [''nuts'']\<rparr> # [wheat_entry]) ''nuts''
       = Some (oats_entry\<lparr>aliases := [''nuts'']\<rparr>)"
proof -
  have m: "milk_entry \<in> set CANONICAL_DATA"
    by (simp add: CANONICAL_DATA_def milk_entry_def)
  have d: "''dairy'' \<in> set (label milk_entry # aliases milk_entry)"
    by (simp add: milk_entry_def)
  have k: "''nuts'' \<in> set (declared_keys (oats_entry\<lparr>aliases := [''nuts'']\<rparr>))"
    by code_simp
  have l: "\<forall>e'\<in>set [wheat_entry]. ''nuts'' \<notin> set (declared_keys e')"
    by code_simp
  from alias_lookup_declared_last_wins m d have 1: "canonicalize_allergen (PyStr ''dairy'') = Inr (Some milk_entry)"
    by blast
  from alias_lookup_declared_last_wins k l
  have 2: "alias_lookup_of ([milk_entry\<lparr>aliases := [''nuts'']\<rparr>] @ oats_entry\<lparr>aliases := [''nuts'']\<rparr> # [wheat_entry]) ''nuts''
       = Some (oats_entry\<lparr>aliases := [''nuts'']\<rparr>)"
    by blast
  from l have l': "''nuts'' \<notin> set (declared_keys wheat_entry)"
    by simp
  from m d k l' 1 2 show ?thesis by blast
qed

text \<open>
  C5. \<^const>\<open>canonical_allergen_from_label\<close> looks up by lower-cased, trimmed label only.
  A text whose trimmed, lower-cased form is the lower-cased label of an entry of the table
  gives that entry (" MILK ", "milk" and "Milk" all give the Milk entry); a text whose
  trimmed, lower-cased form is the label of no entry gives absent, also when it is an alias
  of an entry, such as "dairy", on which \<^const>\<open>canonicalize_allergen\<close> gives that
  entry. An empty, blank or absent label gives absent.
\<close>

theorem from_label_is_label_only:
  "(\<forall>s e. e \<in> set CANONICAL_DATA
        \<and> py_lower (py_strip s) \<in> set (map py_lower (aliases e))
        \<and> (\<forall>e'\<in>set CANONICAL_DATA. py_lower (py_strip s) \<noteq> py_lower (label e')) \<longrightarrow>
      canonical_allergen_from_label (PyStr s) = Inr None
      \<and> canonicalize_allergen (PyStr s) = Inr (Some e))
   \<and> canonical_allergen_from_label (PyStr ''dairy'') = Inr None
   \<and> canonicalize_allergen (PyStr ''dairy'') = Inr (Some milk_entry)
   \<and> (\<forall>e\<in>set CANONICAL_DATA. canonical_allergen_from_label (PyStr (label e)) = Inr (Some e))
   \<and> canonical_allergen_from_label (PyStr []) = Inr None
   \<and> canonical_allergen_from_label PyNone = Inr None
   \<and> (\<forall>s e. e \<in> set CANONICAL_DATA \<and> py_lower (py_strip s) = py_lower (label e) \<longrightarrow>
        canonical_allergen_from_label (PyStr s) = Inr (Some e))
   \<and> (\<forall>s. (\<forall>e\<in>set CANONICAL_DATA. py_lower (py_strip s) \<noteq> py_lower (label e)) \<longrightarrow>
        canonical_allergen_from_label (PyStr s) = Inr None)
   \<and> canonical_allergen_from_label (PyStr '' MILK '') = Inr (Some milk_entry)
   \<and> canonical_allergen_from_label (PyStr ''milk'') = Inr (Some milk_entry)
   \<and> canonical_allergen_from_label (PyStr ''Milk'') = Inr (Some milk_entry)
   \<and> canonical_allergen_from_label (PyStr ''   '') = Inr None"
proof -
  have m: "milk_entry \<in> set CANONICAL_DATA"
    by (simp add: CANONICAL_DATA_def milk_entry_def)
  have a: "py_lower (py_strip ''dairy'') \<in> set (map py_lower (aliases milk_entry))"
    by code_simp
  note d = from_label_alias_only [OF m a dairy_no_label]
  have n: "canonical_allergen_from_label (PyStr []) = Inr None"
    "canonical_allergen_from_label PyNone = Inr None"
    by (simp_all add: canonical_allergen_from_label_def)
  have g1: "\<forall>s e. e \<in> set CANONICAL_DATA
        \<and> py_lower (py_strip s) \<in> set (map py_lower (aliases e))
        \<and> (\<forall>e'\<in>set CANONICAL_DATA. py_lower (py_strip s) \<noteq> py_lower (label e')) \<longrightarrow>
      canonical_allergen_from_label (PyStr s) = Inr None
      \<and> canonicalize_allergen (PyStr s) = Inr (Some e)"
    using from_label_alias_only by blast
  have g2: "\<forall>e\<in>set CANONICAL_DATA. canonical_allergen_from_label (PyStr (label e)) = Inr (Some e)"
    using from_label_of_label by blast
  have g3: "\<forall>s e. e \<in> set CANONICAL_DATA \<and> py_lower (py_strip s) = py_lower (label e) \<longrightarrow>
        canonical_allergen_from_label (PyStr s) = Inr (Some e)"
    using from_label_matching_label by blast
  have g4: "\<forall>s. (\<forall>e\<in>set CANONICAL_DATA. py_lower (py_strip s) \<noteq> py_lower (label e)) \<longrightarrow>
        canonical_allergen_from_label (PyStr s) = Inr None"
    using from_label_no_label by blast
  have k1: "py_lower (py_strip '' MILK '') = py_lower (label milk_entry)" by code_simp
  have k2: "py_lower (py_strip ''milk'') = py_lower (label milk_entry)" by code_simp
  have k3: "py_lower (py_strip ''Milk'') = py_lower (label milk_entry)" by code_simp
  have k4: "py_lower (py_strip ''   '') = []" by code_simp
  have "\<forall>e\<in>set CANONICAL_DATA. py_lower (label e) \<noteq> []"
    using table_text_trimmed(1) by (simp add: py_lower_Nil_iff)
  with k4 have b: "\<forall>e\<in>set CANONICAL_DATA. py_lower (py_strip ''   '') \<noteq> py_lower (label e)"
    by (metis)
  show ?thesis
    by (intro conjI g1 d n g2 g3 g4 from_label_matching_label [OF m k1]
        from_label_matching_label [OF m k2] from_label_matching_label [OF m k3]
        from_label_no_label [OF b])
qed

theorem from_label_is_label_only_witness:
  "milk_entry \<in> set CANONICAL_DATA
   \<and> py_lower (py_strip '' Dairy '') \<in> set (map py_lower (aliases milk_entry))
   \<and> canonical_allergen_from_label (PyStr '' Dairy '') = Inr None
   \<and> canonicalize_allergen (PyStr '' Dairy '') = Inr (Some milk_entry)
   \<and> canonical_allergen_from_label (PyStr (label milk_entry)) = Inr (Some milk_entry)
   \<and> py_lower (py_strip [CHR 0x09, CHR ''m'', CHR ''I'', CHR ''l'', CHR ''K'', CHR '' ''])
        = py_lower (label milk_entry)
   \<and> canonical_allergen_from_label (PyStr [CHR 0x09, CHR ''m'', CHR ''I'', CHR ''l'', CHR ''K'', CHR '' ''])
        = Inr (Some milk_entry)
   \<and> canonical_allergen_from_label (PyStr ''gluten free'') = Inr None"
proof -
  have m: "milk_entry \<in> set CANONICAL_DATA"
    by (simp add: CANONICAL_DATA_def milk_entry_def)
  have a: "py_lower (py_strip '' Dairy '') \<in> set (map py_lower (aliases milk_entry))"
    by code_simp
  have l: "\<forall>e'\<in>set CANONICAL_DATA. py_lower (py_strip '' Dairy '') \<noteq> py_lower (label e')"
    by code_simp
  from from_label_is_label_only m a l
  have 1: "canonical_allergen_from_label (PyStr '' Dairy '') = Inr None
      \<and> canonicalize_allergen (PyStr '' Dairy '') = Inr (Some milk_entry)"
    by blast
  from from_label_is_label_only m
  have 2: "canonical_allergen_from_label (PyStr (label milk_entry)) = Inr (Some milk_entry)"
    by blast
  have k: "py_lower (py_strip [CHR 0x09, CHR ''m'', CHR ''I'', CHR ''l'', CHR ''K'', CHR '' ''])
        = py_lower (label milk_entry)"
    by code_simp
  from from_label_is_label_only m k
  have 3: "canonical_allergen_from_label (PyStr [CHR 0x09, CHR ''m'', CHR ''I'', CHR ''l'', CHR ''K'', CHR '' ''])
        = Inr (Some milk_entry)"
    by blast
  have g: "\<forall>e\<in>set CANONICAL_DATA. py_lower (py_strip ''gluten free'') \<noteq> py_lower (label e)"
    by code_simp
  from from_label_is_label_only g
  have 4: "canonical_allergen_from_label (PyStr ''gluten free'') = Inr None"
    by blast
  show ?thesis
    by (intro conjI m a 1 [THEN conjunct1] 1 [THEN conjunct2] 2 k 3 4)
qed

text \<open>
  C10. Unlike \<^const>\<open>normalize_certainty\<close>, \<^const>\<open>canonicalize_allergen\<close> does not
  collapse whitespace inside the text: for every alias of the table that holds a space,
  the same text with that space doubled gives absent ("rolled oats" resolves to the Oats
  entry, "rolled  oats" does not), while \<^const>\<open>normalize_certainty\<close> treats
  "very  high" like "very high".
\<close>

theorem canonicalize_allergen_keeps_inner_whitespace:
  "(\<forall>e\<in>set CANONICAL_DATA. \<forall>A\<in>set (aliases e). \<forall>u v. A = u @ CHR '' '' # v \<longrightarrow>
      canonicalize_allergen (PyStr (u @ CHR '' '' # CHR '' '' # v)) = Inr None)
   \<and> canonicalize_allergen (PyStr ''rolled oats'') = Inr (Some oats_entry)
   \<and> canonicalize_allergen (PyStr ''rolled  oats'') = Inr None
   \<and> normalize_certainty (PyStr ''very  high'') = normalize_certainty (PyStr ''very high'')
   \<and> normalize_certainty (PyStr ''very  high'') = Inr (Some ''likely'')"
proof -
  have a: "canonicalize_allergen (PyStr ''rolled oats'') = Inr (Some oats_entry)"
    unfolding canonicalize_allergen_PyStr by code_simp
  have b: "canonicalize_allergen (PyStr ''rolled  oats'') = Inr None"
    unfolding canonicalize_allergen_PyStr by code_simp
  have c: "normalize_certainty (PyStr ''very  high'') = Inr (Some ''likely'')"
    by code_simp
  have d: "normalize_certainty (PyStr ''very high'') = Inr (Some ''likely'')"
    by code_simp
  have cd: "normalize_certainty (PyStr ''very  high'') = normalize_certainty (PyStr ''very high'')"
    by (simp only: c d)
  have g: "\<forall>e\<in>set CANONICAL_DATA. \<forall>A\<in>set (aliases e). \<forall>u v. A = u @ CHR '' '' # v \<longrightarrow>
      canonicalize_allergen (PyStr (u @ CHR '' '' # CHR '' '' # v)) = Inr None"
    using doubled_space_absent by blast
  show ?thesis
    by (intro conjI g a b cd c)
qed

theorem canonicalize_allergen_keeps_inner_whitespace_witness:
  "oats_entry \<in> set CANONICAL_DATA \<and> ''rolled oats'' \<in> set (aliases oats_entry)
   \<and> ''rolled oats'' = ''rolled'' @ CHR '' '' # ''oats''
   \<and> canonicalize_allergen (PyStr (''rolled'' @ CHR '' '' # CHR '' '' # ''oats'')) = Inr None"
proof -
  have m: "oats_entry \<in> set CANONICAL_DATA"
    by (simp add: CANONICAL_DATA_def oats_entry_def)
  have a: "''rolled oats'' \<in> set (aliases oats_entry)"
    by (simp add: oats_entry_def)
  have s: "''rolled oats'' = ''rolled'' @ CHR '' '' # ''oats''"
    by simp
  from canonicalize_allergen_keeps_inner_whitespace m a
  have "\<forall>u v. ''rolled oats'' = u @ CHR '' '' # v \<longrightarrow>
      canonicalize_allergen (PyStr (u @ CHR '' '' # CHR '' '' # v)) = Inr None"
    by blast
  with s have "canonicalize_allergen (PyStr (''rolled'' @ CHR '' '' # CHR '' '' # ''oats'')) = Inr None"
    by blast
  with m a s show ?thesis by blast
qed

text \<open>
  C2. When the normalised text (trimmed, lower-cased, whitespace collapsed) is not a key of
  the certainty rules, \<^const>\<open>normalize_certainty\<close> returns the value of the first rule,
  in the order the rules are declared, whose key is a prefix of the normalised text, and
  absent when no key is a prefix. "highish" gives "likely" through the key "high", and for
  every text that starts with "high" the first matching rule is the rule "high".
\<close>

theorem normalize_certainty_first_prefix:
  "(\<forall>s. map_of CERTAINTY_NORMALIZATION_RULES (certainty_text s) = None \<longrightarrow>
      normalize_certainty (PyStr s) =
        Inr (map_option snd
          (find (\<lambda>(k, t). prefix k (certainty_text s)) CERTAINTY_NORMALIZATION_RULES)))
   \<and> map_of CERTAINTY_NORMALIZATION_RULES (certainty_text ''highish'') = None
   \<and> find (\<lambda>(k, t). prefix k (certainty_text ''highish'')) CERTAINTY_NORMALIZATION_RULES
       = Some (''high'', ''likely'')
   \<and> normalize_certainty (PyStr ''highish'') = Inr (Some ''likely'')
   \<and> (\<forall>s. prefix ''high'' (certainty_text s) \<longrightarrow>
        find (\<lambda>(k, t). prefix k (certainty_text s)) CERTAINTY_NORMALIZATION_RULES
          = Some (''high'', ''likely'')
        \<and> normalize_certainty (PyStr s) = Inr (Some ''likely''))
   \<and> (\<forall>s. (\<forall>(k, t)\<in>set CERTAINTY_NORMALIZATION_RULES. \<not> prefix k (certainty_text s)) \<longrightarrow>
        normalize_certainty (PyStr s) = Inr None)"
proof -
  have keys: "find (\<lambda>(k, t). k = []) CERTAINTY_NORMALIZATION_RULES = None"
    using rules_keys_nonempty by (auto simp: find_None_iff)
  have empty: "py_lower (py_strip s) = [] \<Longrightarrow> certainty_text s = []" for s
    by (simp add: certainty_text_def)
  have a: "map_of CERTAINTY_NORMALIZATION_RULES (certainty_text s) = None \<Longrightarrow>
      normalize_certainty (PyStr s) =
        Inr (map_option snd
          (find (\<lambda>(k, t). prefix k (certainty_text s)) CERTAINTY_NORMALIZATION_RULES))" for s
    unfolding normalize_certainty_PyStr by (simp add: keys empty)
  have t: "certainty_text ''highish'' = ''highish''"
    by code_simp
  have b: "map_of CERTAINTY_NORMALIZATION_RULES (certainty_text ''highish'') = None"
    unfolding t by (simp add: CERTAINTY_NORMALIZATION_RULES_def)
  have c: "find (\<lambda>(k, t). prefix k (certainty_text ''highish'')) CERTAINTY_NORMALIZATION_RULES
       = Some (''high'', ''likely'')"
    by (rule find_high) (simp add: t)
  from a [OF b] c have d: "normalize_certainty (PyStr ''highish'') = Inr (Some ''likely'')"
    by simp
  have e: "prefix ''high'' (certainty_text s) \<Longrightarrow>
        find (\<lambda>(k, t). prefix k (certainty_text s)) CERTAINTY_NORMALIZATION_RULES
          = Some (''high'', ''likely'')
        \<and> normalize_certainty (PyStr s) = Inr (Some ''likely'')" for s
  proof -
    assume p: "prefix ''high'' (certainty_text s)"
    then have ne: "py_lower (py_strip s) \<noteq> []"
      using empty [of s] by auto
    from find_high [OF p] ne get_high [OF p] show ?thesis
      unfolding normalize_certainty_PyStr by (auto split: option.splits)
  qed
  have f: "(\<forall>(k, t)\<in>set CERTAINTY_NORMALIZATION_RULES. \<not> prefix k (certainty_text s)) \<Longrightarrow>
        normalize_certainty (PyStr s) = Inr None" for s
    using no_prefix_no_exact [of "certainty_text s"]
    unfolding normalize_certainty_PyStr by simp
  from a b c d e f show ?thesis
    by blast
qed

theorem normalize_certainty_first_prefix_witness:
  "map_of CERTAINTY_NORMALIZATION_RULES (certainty_text '' High  risk'') = None
   \<and> prefix ''high'' (certainty_text '' High  risk'')
   \<and> normalize_certainty (PyStr '' High  risk'') =
        Inr (map_option snd
          (find (\<lambda>(k, t). prefix k (certainty_text '' High  risk'')) CERTAINTY_NORMALIZATION_RULES))
   \<and> normalize_certainty (PyStr '' High  risk'') = Inr (Some ''likely'')
   \<and> normalize_certainty (PyStr ''bogus'') = Inr None"
proof -
  have t: "certainty_text '' High  risk'' = ''high risk''"
    by code_simp
  have u: "certainty_text ''bogus'' = ''bogus''"
    by code_simp
  have m: "map_of CERTAINTY_NORMALIZATION_RULES (certainty_text '' High  risk'') = None"
    unfolding t by (simp add: CERTAINTY_NORMALIZATION_RULES_def)
  have p: "prefix ''high'' (certainty_text '' High  risk'')"
    unfolding t by simp
  have n: "\<forall>(k, t)\<in>set CERTAINTY_NORMALIZATION_RULES. \<not> prefix k (certainty_text ''bogus'')"
    unfolding u by (simp add: CERTAINTY_NORMALIZATION_RULES_def)
  from normalize_certainty_first_prefix m
  have 1: "normalize_certainty (PyStr '' High  risk'') =
        Inr (map_option snd
          (find (\<lambda>(k, t). prefix k (certainty_text '' High  risk'')) CERTAINTY_NORMALIZATION_RULES))"
    by blast
  from normalize_certainty_first_prefix p
  have 2: "normalize_certainty (PyStr '' High  risk'') = Inr (Some ''likely'')"
    by blast
  from normalize_certainty_first_prefix n
  have 3: "normalize_certainty (PyStr ''bogus'') = Inr None"
    by blast
  show ?thesis
    by (intro conjI m p 1 2 3)
qed

text \<open>
  C4. \<^const>\<open>normalize_certainty\<close> returns absent for an absent input and for an input
  whose trimmed text is empty, such as "   ". Otherwise the input is converted to text,
  trimmed, lower-cased, and every run of whitespace is replaced by one space (the other
  characters are kept); when that text is a key of the certainty rules, the value of the
  key is returned. Every result that is not absent is "certain" or "likely".
\<close>

theorem normalize_certainty_contract:
  "normalize_certainty PyNone = Inr None
   \<and> (\<forall>v s. v \<noteq> PyNone \<and> py_str v = Inr s \<and> py_strip s = [] \<longrightarrow> normalize_certainty v = Inr None)
   \<and> normalize_certainty (PyStr ''   '') = Inr None
   \<and> (\<forall>s. certainty_text s = re_sub_ws (py_lower (py_strip s))
          \<and> collapsed (certainty_text s))
   \<and> (\<forall>x. filter (\<lambda>c. \<not> is_space c) (re_sub_ws x) = filter (\<lambda>c. \<not> is_space c) x)
   \<and> (\<forall>v s t. v \<noteq> PyNone \<and> py_str v = Inr s
          \<and> map_of CERTAINTY_NORMALIZATION_RULES (certainty_text s) = Some t \<longrightarrow>
        normalize_certainty v = Inr (Some t))
   \<and> normalize_certainty (PyStr ''Confirmed'') = Inr (Some ''certain'')
   \<and> normalize_certainty (PyStr ''  Very   HIGH '') = Inr (Some ''likely'')
   \<and> (\<forall>v r. normalize_certainty v = Inr (Some r) \<longrightarrow> r = ''certain'' \<or> r = ''likely'')"
proof -
  have a: "normalize_certainty PyNone = Inr None" by simp
  have b: "normalize_certainty (PyStr ''   '') = Inr None" by code_simp
  have c: "certainty_text s = re_sub_ws (py_lower (py_strip s)) \<and> collapsed (certainty_text s)" for s
    by (simp add: certainty_text_def collapsed_re_sub_ws)
  have d: "normalize_certainty (PyStr ''Confirmed'') = Inr (Some ''certain'')" by code_simp
  have e: "normalize_certainty (PyStr ''  Very   HIGH '') = Inr (Some ''likely'')" by code_simp
  have f: "\<forall>v s. v \<noteq> PyNone \<and> py_str v = Inr s \<and> py_strip s = [] \<longrightarrow> normalize_certainty v = Inr None"
    using normalize_certainty_blank by blast
  have g: "\<forall>v s t. v \<noteq> PyNone \<and> py_str v = Inr s
          \<and> map_of CERTAINTY_NORMALIZATION_RULES (certainty_text s) = Some t \<longrightarrow>
        normalize_certainty v = Inr (Some t)"
    using normalize_certainty_exact by blast
  have h: "\<forall>v r. normalize_certainty v = Inr (Some r) \<longrightarrow> r = ''certain'' \<or> r = ''likely''"
    using normalize_certainty_range by blast
  have c': "\<forall>s. certainty_text s = re_sub_ws (py_lower (py_strip s)) \<and> collapsed (certainty_text s)"
    using c by blast
  have k: "\<forall>x. filter (\<lambda>c. \<not> is_space c) (re_sub_ws x) = filter (\<lambda>c. \<not> is_space c) x"
    using re_sub_ws_keeps_text by blast
  show ?thesis
    by (intro conjI a f b c' k g d e h)
qed

theorem normalize_certainty_contract_witness:
  "py_str (PyStr '' Most  Likely '') = Inr '' Most  Likely ''
   \<and> map_of CERTAINTY_NORMALIZATION_RULES (certainty_text '' Most  Likely '') = Some ''likely''
   \<and> normalize_certainty (PyStr '' Most  Likely '') = Inr (Some ''likely'')
   \<and> py_str (PyBool True) = Inr ''True''
   \<and> normalize_certainty (PyBool True) = Inr None
   \<and> py_strip [CHR 0x09, CHR '' ''] = []
   \<and> normalize_certainty (PyStr [CHR 0x09, CHR '' '']) = Inr None"
proof -
  have s: "py_str (PyStr '' Most  Likely '') = Inr '' Most  Likely ''" by simp
  have t: "certainty_text '' Most  Likely '' = ''most likely''" by code_simp
  have m: "map_of CERTAINTY_NORMALIZATION_RULES (certainty_text '' Most  Likely '') = Some ''likely''"
    unfolding t by (simp add: CERTAINTY_NORMALIZATION_RULES_def)
  have ne: "PyStr '' Most  Likely '' \<noteq> PyNone" by simp
  from normalize_certainty_contract ne s m
  have 1: "normalize_certainty (PyStr '' Most  Likely '') = Inr (Some ''likely'')"
    by blast
  have bs: "py_str (PyBool True) = Inr ''True''" by simp
  have bn: "normalize_certainty (PyBool True) = Inr None" by code_simp
  have ws: "py_strip [CHR 0x09, CHR '' ''] = []" by code_simp
  have wn: "PyStr [CHR 0x09, CHR '' ''] \<noteq> PyNone" by simp
  have wp: "py_str (PyStr [CHR 0x09, CHR '' '']) = Inr [CHR 0x09, CHR '' '']" by simp
  from normalize_certainty_contract wn wp ws
  have 2: "normalize_certainty (PyStr [CHR 0x09, CHR '' '']) = Inr None"
    by blast
  show ?thesis
    by (intro conjI s m 1 bs bn ws 2)
qed

text \<open>
  C3, as amended. \<^const>\<open>canonicalize_allergen\<close> and \<^const>\<open>normalize_certainty\<close> return
  a result for every absent, text, boolean, float and canonical-entry input and for every
  integer of at most \<^const>\<open>int_max_str_digits\<close> digits; on a longer integer \<^verbatim>\<open>str\<close>
  raises \<^verbatim>\<open>ValueError\<close> and so do they. \<^const>\<open>certainty_to_ui\<close> returns a result for
  each of these inputs. \<^const>\<open>canonical_allergen_from_label\<close>, whose parameter is declared
  \<^verbatim>\<open>str\<close>, returns a result for every absent or text input and for a number or boolean
  that tests false; on an integer, float or boolean that tests true and on a canonical
  entry it raises \<^verbatim>\<open>AttributeError\<close>, since it calls \<^verbatim>\<open>label.strip()\<close> without
  converting to text.
\<close>

theorem public_functions_total_on_declared_inputs:
  "(\<forall>v. (\<forall>n. v = PyInt n \<longrightarrow> \<bar>n\<bar> < 10 ^ int_max_str_digits) \<longrightarrow>
      (\<exists>r. canonicalize_allergen v = Inr r) \<and> (\<exists>r. normalize_certainty v = Inr r))
   \<and> (\<forall>n. 10 ^ int_max_str_digits \<le> \<bar>n\<bar> \<longrightarrow>
        canonicalize_allergen (PyInt n) = Inl ValueError
        \<and> normalize_certainty (PyInt n) = Inl ValueError)
   \<and> (\<forall>v. \<exists>r. certainty_to_ui v = Inr r)
   \<and> (\<forall>v. v = PyNone \<or> (\<exists>s. v = PyStr s) \<or> \<not> truthy v \<longrightarrow>
        (\<exists>r. canonical_allergen_from_label v = Inr r))
   \<and> (\<forall>n. n \<noteq> 0 \<longrightarrow> canonical_allergen_from_label (PyInt n) = Inl AttributeError)
   \<and> canonical_allergen_from_label (PyBool True) = Inl AttributeError
   \<and> (\<forall>t. truthy (PyFloat t) \<longrightarrow> canonical_allergen_from_label (PyFloat t) = Inl AttributeError)
   \<and> (\<forall>e. canonical_allergen_from_label (PyEntry e) = Inl AttributeError)"
proof -
  have a: "\<forall>v. (\<forall>n. v = PyInt n \<longrightarrow> \<bar>n\<bar> < 10 ^ int_max_str_digits) \<longrightarrow>
      (\<exists>r. canonicalize_allergen v = Inr r) \<and> (\<exists>r. normalize_certainty v = Inr r)"
    using py_str_ok canonicalize_allergen_returns normalize_certainty_returns by blast
  have b: "\<forall>n. 10 ^ int_max_str_digits \<le> \<bar>n\<bar> \<longrightarrow>
        canonicalize_allergen (PyInt n) = Inl ValueError
        \<and> normalize_certainty (PyInt n) = Inl ValueError"
    using str_int_too_long_raises by blast
  have c: "\<forall>v. \<exists>r. certainty_to_ui v = Inr r"
    using certainty_to_ui_returns by blast
  have d: "\<forall>v. v = PyNone \<or> (\<exists>s. v = PyStr s) \<or> \<not> truthy v \<longrightarrow>
        (\<exists>r. canonical_allergen_from_label v = Inr r)"
    using from_label_returns by auto
  have e: "\<forall>n. n \<noteq> 0 \<longrightarrow> canonical_allergen_from_label (PyInt n) = Inl AttributeError"
    using from_label_raises_int by blast
  have f: "\<forall>t. truthy (PyFloat t) \<longrightarrow> canonical_allergen_from_label (PyFloat t) = Inl AttributeError"
    using from_label_raises_float by blast
  have g: "\<forall>e. canonical_allergen_from_label (PyEntry e) = Inl AttributeError"
    using from_label_raises_entry by blast
  show ?thesis
    by (intro conjI a b c d e from_label_raises_bool f g)
qed

theorem public_functions_total_on_declared_inputs_witness:
  "\<bar>5\<bar> < (10::int) ^ int_max_str_digits
   \<and> (\<exists>r. canonicalize_allergen (PyInt 5) = Inr r)
   \<and> (\<exists>r. normalize_certainty (PyInt 5) = Inr r)
   \<and> (\<exists>r. canonicalize_allergen (PyFloat ''1.5'') = Inr r)
   \<and> (\<exists>r. normalize_certainty (PyFloat ''nan'') = Inr r)
   \<and> 10 ^ int_max_str_digits \<le> \<bar>(10::int) ^ 4300\<bar>
   \<and> canonicalize_allergen (PyInt (10 ^ 4300)) = Inl ValueError
   \<and> normalize_certainty (PyInt (10 ^ 4300)) = Inl ValueError
   \<and> \<not> truthy (PyFloat ''0.0'')
   \<and> (\<exists>r. canonical_allergen_from_label (PyFloat ''0.0'') = Inr r)
   \<and> (5::int) \<noteq> 0
   \<and> canonical_allergen_from_label (PyInt 5) = Inl AttributeError
   \<and> truthy (PyFloat ''1.5'')
   \<and> canonical_allergen_from_label (PyFloat ''1.5'') = Inl AttributeError"
proof -
  have "(5::int) < 10 ^ 1" by simp
  also have "(10::int) ^ 1 \<le> 10 ^ int_max_str_digits"
    by (rule power_increasing) (simp_all add: int_max_str_digits_def)
  finally have h: "\<bar>5\<bar> < (10::int) ^ int_max_str_digits" by simp
  then have hv: "\<forall>n. PyInt 5 = PyInt n \<longrightarrow> \<bar>n\<bar> < 10 ^ int_max_str_digits" by simp
  from public_functions_total_on_declared_inputs hv have ex: "(\<exists>r. canonicalize_allergen (PyInt 5) = Inr r)
      \<and> (\<exists>r. normalize_certainty (PyInt 5) = Inr r)"
    by blast
  have fv: "\<forall>n. PyFloat t = PyInt n \<longrightarrow> \<bar>n\<bar> < 10 ^ int_max_str_digits" for t by simp
  from public_functions_total_on_declared_inputs fv have fl: "(\<exists>r. canonicalize_allergen (PyFloat ''1.5'') = Inr r)
      \<and> (\<exists>r. normalize_certainty (PyFloat ''nan'') = Inr r)"
    by blast
  note big = pow10_limit_abs
  from public_functions_total_on_declared_inputs big have bg: "canonicalize_allergen (PyInt (10 ^ 4300)) = Inl ValueError
      \<and> normalize_certainty (PyInt (10 ^ 4300)) = Inl ValueError"
    by blast
  have z: "\<not> truthy (PyFloat ''0.0'')" by simp
  from public_functions_total_on_declared_inputs z have 1: "\<exists>r. canonical_allergen_from_label (PyFloat ''0.0'') = Inr r"
    by blast
  have n5: "(5::int) \<noteq> 0" by simp
  from public_functions_total_on_declared_inputs n5 have 2: "canonical_allergen_from_label (PyInt 5) = Inl AttributeError"
    by blast
  have t: "truthy (PyFloat ''1.5'')" by simp
  from public_functions_total_on_declared_inputs t have 3: "canonical_allergen_from_label (PyFloat ''1.5'') = Inl AttributeError"
    by blast
  from h ex fl big bg z 1 n5 2 t 3 show ?thesis by blast
qed

text \<open>
  C3 as stated fails twice. \<^const>\<open>canonical_allergen_from_label\<close> on the number 5 passes
  the test \<^verbatim>\<open>if not label\<close> and then raises \<^verbatim>\<open>AttributeError\<close>; and
  \<^const>\<open>canonicalize_allergen\<close> on the integer of 4301 digits raises the
  \<^verbatim>\<open>ValueError\<close> of \<^verbatim>\<open>str\<close>.
\<close>

theorem public_functions_not_total_counterexample:
  "canonical_allergen_from_label (PyInt 5) = Inl AttributeError
   \<and> canonicalize_allergen (PyInt (10 ^ 4300)) = Inl ValueError"
proof -
  have a: "canonical_allergen_from_label (PyInt 5) = Inl AttributeError"
    by (simp add: canonical_allergen_from_label_def)
  from str_int_too_long_raises(1) [OF pow10_limit_abs]
  have b: "canonicalize_allergen (PyInt (10 ^ 4300)) = Inl ValueError" .
  show ?thesis by (intro conjI a b)
qed

end
